theory Spec2Isabelle
  imports Main
begin

section \<open>Element trees\<close>

text \<open>
  The three scripts build and read \<^verbatim>\<open>xml.etree.ElementTree\<close> elements. An element has a
  tag, an attribute dictionary (insertion ordered, so an association list), a text and a
  list of children. The type of attribute values and of the text is a parameter: a parsed
  document holds strings (text \<open>None\<close> when the element has no text), while the Gracenote
  builders store whatever value the JSON input carried. The \<^verbatim>\<open>tail\<close> of an element is never
  read or written by the scripts and is left out.
\<close>

datatype ('a, 't) element =
  Element (tag: string) (attrib: "(string \<times> 'a) list") (text_of: 't)
    (children: "('a, 't) element list")

type_synonym xml_element = "(string, string option) element"

text \<open>\<^verbatim>\<open>ET.SubElement(parent, ...)\<close> appends the new element to the children of its parent.\<close>

definition SubElement :: "('a, 't) element \<Rightarrow> ('a, 't) element \<Rightarrow> ('a, 't) element" where
  "SubElement parent child =
     Element (tag parent) (attrib parent) (text_of parent) (children parent @ [child])"

text \<open>\<^verbatim>\<open>elem.get(key, default)\<close>: the attribute, or the default when it is absent.\<close>

definition get_attr :: "('a, 't) element \<Rightarrow> string \<Rightarrow> 'a \<Rightarrow> 'a" where
  "get_attr e k d = (case map_of (attrib e) k of Some v \<Rightarrow> v | None \<Rightarrow> d)"

text \<open>\<^verbatim>\<open>elem.find(t)\<close> with a plain tag: the first direct child with that tag, or \<open>None\<close>.\<close>

definition find_child :: "string \<Rightarrow> ('a, 't) element \<Rightarrow> ('a, 't) element option" where
  "find_child t e = List.find (\<lambda>c. tag c = t) (children e)"

text \<open>\<^verbatim>\<open>elem.iter()\<close>: the element itself and all its descendants, in document order.\<close>

fun iter :: "('a, 't) element \<Rightarrow> ('a, 't) element list" where
  "iter (Element t a x cs) = Element t a x cs # concat (map iter cs)"

text \<open>
  \<^verbatim>\<open>elem.findall('.//t')\<close>: every element with tag \<open>t\<close> on any level beneath \<open>elem\<close>, in
  document order. The element \<open>elem\<close> itself is not among the results of a \<^verbatim>\<open>.//\<close> path.
\<close>

definition descendants :: "('a, 't) element \<Rightarrow> ('a, 't) element list" where
  "descendants e = concat (map iter (children e))"

definition findall_desc :: "string \<Rightarrow> ('a, 't) element \<Rightarrow> ('a, 't) element list" where
  "findall_desc t e = filter (\<lambda>x. tag x = t) (descendants e)"

section \<open>Strings\<close>

text \<open>
  Characters are code points below 256. \<^verbatim>\<open>str.isspace\<close> is true there for the code points
  9 to 13, 28 to 32, 133 and 160; \<^verbatim>\<open>str.strip()\<close> removes such characters at both ends.
\<close>

definition isspace :: "char \<Rightarrow> bool" where
  "isspace c = (of_char c \<in> {9, 10, 11, 12, 13, 28, 29, 30, 31, 32, 133, 160 :: nat})"

definition strip :: "string \<Rightarrow> string" where
  "strip s = rev (dropWhile isspace (rev (dropWhile isspace s)))"

definition endswith :: "string \<Rightarrow> string \<Rightarrow> bool" where
  "endswith s suf = (length suf \<le> length s \<and> drop (length s - length suf) s = suf)"

section \<open>The tolerant extractor: parse_programs of service/fuel/main.py\<close>

record program_data =
  start :: string
  stop :: string
  title :: string
  desc :: string

text \<open>
  The pattern \<^verbatim>\<open>if e is not None and e.text: x = e.text.strip()\<close>, where \<open>x\<close> held \<open>d\<close>
  before: the stripped text of the element when it exists and its text is neither
  \<open>None\<close> nor empty, else the old value.
\<close>

definition text_or :: "xml_element option \<Rightarrow> string \<Rightarrow> string" where
  "text_or e d =
     (case e of
        None \<Rightarrow> d
      | Some x \<Rightarrow> (case text_of x of None \<Rightarrow> d | Some s \<Rightarrow> if s = [] then d else strip s))"

text \<open>Method 1, the body of the loop over the \<^verbatim>\<open>programme\<close> elements.\<close>

definition programme_fields :: "xml_element \<Rightarrow> program_data" where
  "programme_fields prog =
     \<lparr> start = get_attr prog ''start'' '''',
       stop = get_attr prog ''stop'' '''',
       title = text_or (find_child ''title'' prog) '''',
       desc = text_or
                (case find_child ''desc'' prog of
                   None \<Rightarrow> find_child ''description'' prog
                 | Some d \<Rightarrow> Some d) '''' \<rparr>"

text \<open>Method 2, the body of the loop over the \<^verbatim>\<open>item\<close> elements.\<close>

definition item_fields :: "xml_element \<Rightarrow> program_data" where
  "item_fields item =
     \<lparr> start = text_or (find_child ''pubDate'' item) '''',
       stop = '''',
       title = text_or (find_child ''title'' item) '''',
       desc = text_or (find_child ''description'' item) '''' \<rparr>"

text \<open>Method 3: the test on the tag, the loop over the children, and the candidate.\<close>

definition is_program_like :: "xml_element \<Rightarrow> bool" where
  "is_program_like elem = (endswith (tag elem) ''program'' \<or> endswith (tag elem) ''show'')"

definition scan_child :: "xml_element \<Rightarrow> program_data \<Rightarrow> program_data" where
  "scan_child child pd =
     (if endswith (tag child) ''title'' \<or> endswith (tag child) ''name'' then
        (case text_of child of
           None \<Rightarrow> pd
         | Some s \<Rightarrow> if s = [] then pd else pd\<lparr>title := strip s\<rparr>)
      else if endswith (tag child) ''desc'' \<or> endswith (tag child) ''description'' then
        (case text_of child of
           None \<Rightarrow> pd
         | Some s \<Rightarrow> if s = [] then pd else pd\<lparr>desc := strip s\<rparr>)
      else pd)"

definition generic_fields :: "xml_element \<Rightarrow> program_data" where
  "generic_fields elem =
     fold scan_child (children elem)
       \<lparr> start = get_attr elem ''start'' (get_attr elem ''begin'' ''''),
         stop = get_attr elem ''stop'' (get_attr elem ''end'' ''''),
         title = '''',
         desc = '''' \<rparr>"

definition generic_programs :: "xml_element \<Rightarrow> program_data list" where
  "generic_programs xml_root =
     filter (\<lambda>pd. title pd \<noteq> '''')
       (map generic_fields (filter is_program_like (iter xml_root)))"

text \<open>
  \<^verbatim>\<open>parse_programs(xml_root, language)\<close>. The three methods run in order, each later one
  only while \<^verbatim>\<open>programs\<close> is still empty. On an element tree with string tags, string
  attributes and texts that are strings or \<open>None\<close> (what \<^verbatim>\<open>ET.fromstring\<close> returns) no
  statement of the body raises, so the \<^verbatim>\<open>except\<close> handlers, which only print and go on,
  have no branch here, and the function returns its list on every input. The parameter
  \<^verbatim>\<open>language\<close> is not used by the body.
\<close>

definition parse_programs :: "xml_element \<Rightarrow> string \<Rightarrow> program_data list" where
  "parse_programs xml_root language =
     (let programs = map programme_fields (findall_desc ''programme'' xml_root);
          programs = (if programs = []
                      then map item_fields (findall_desc ''item'' xml_root)
                      else programs);
          programs = (if programs = [] then generic_programs xml_root else programs)
      in programs)"

section \<open>The builder of service/fuel/main.py\<close>

record channel_info =
  channel_id :: string
  display_name :: string
  language :: string
  programs :: "program_data list"

definition tv_root :: xml_element where
  "tv_root =
     Element ''tv''
       [(''source-info-name'', ''Bitcentral, Inc.''),
        (''source-info-url'', ''https://bitcentral.com''),
        (''generator-info-name'', ''FUEL EPG Generator'')]
       None []"

definition start_time :: "program_data \<Rightarrow> string" where
  "start_time program = (if start program \<noteq> '''' then start program else ''20000101000000'')"

definition stop_time :: "program_data \<Rightarrow> string" where
  "stop_time program = (if stop program \<noteq> '''' then stop program else ''20000101010000'')"

text \<open>The programme element as it stands when the body of the inner loop has run.\<close>

definition programme_element :: "string \<Rightarrow> string \<Rightarrow> program_data \<Rightarrow> xml_element" where
  "programme_element chan_id lang program =
     Element ''programme''
       [(''start'', start_time program), (''stop'', stop_time program), (''channel'', chan_id)]
       None
       (Element ''title'' [(''lang'', lang)] (Some (title program)) []
        # (if desc program \<noteq> ''''
           then [Element ''desc'' [(''lang'', lang)] (Some (desc program)) []]
           else []))"

definition add_program :: "string \<Rightarrow> string \<Rightarrow> program_data \<Rightarrow> xml_element \<Rightarrow> xml_element" where
  "add_program chan_id lang program tv =
     (if title program \<noteq> '''' then SubElement tv (programme_element chan_id lang program)
      else tv)"

definition channel_element :: "channel_info \<Rightarrow> xml_element" where
  "channel_element ci =
     Element ''channel'' [(''id'', channel_id ci)] None
       [Element ''display-name'' [] (Some (display_name ci)) []]"

definition add_channel :: "channel_info \<Rightarrow> xml_element \<Rightarrow> xml_element" where
  "add_channel ci tv =
     fold (add_program (channel_id ci) (language ci)) (programs ci)
       (SubElement tv (channel_element ci))"

definition create_xmltv_output :: "channel_info list \<Rightarrow> xml_element" where
  "create_xmltv_output all_channels_data = fold add_channel all_channels_data tv_root"

section \<open>Python values in the Gracenote scripts\<close>

text \<open>
  The Gracenote scripts pass values of the JSON input through dictionaries without
  looking at their type. The model has the scalar values: \<open>None\<close>, booleans, integers and
  strings. Numbers with a fraction, arrays and objects in the place of a scalar are outside
  the model.
\<close>

datatype pyval = PNone | PBool bool | PInt int | PStr string

type_synonym pydict = "string \<rightharpoonup> pyval"

type_synonym py_element = "(pyval, pyval) element"

text \<open>Truth value testing, as \<^verbatim>\<open>if v:\<close> and \<^verbatim>\<open>a or b\<close> do it.\<close>

fun truthy :: "pyval \<Rightarrow> bool" where
  "truthy PNone = False"
| "truthy (PBool b) = b"
| "truthy (PInt n) = (n \<noteq> 0)"
| "truthy (PStr s) = (s \<noteq> '''')"

definition py_or :: "pyval \<Rightarrow> pyval \<Rightarrow> pyval" where
  "py_or a b = (if truthy a then a else b)"

text \<open>\<^verbatim>\<open>d.get(k)\<close> and \<^verbatim>\<open>d.get(k, default)\<close>.\<close>

definition dict_get :: "pydict \<Rightarrow> string \<Rightarrow> pyval" where
  "dict_get d k = (case d k of None \<Rightarrow> PNone | Some v \<Rightarrow> v)"

definition dict_get_or :: "pydict \<Rightarrow> string \<Rightarrow> pyval \<Rightarrow> pyval" where
  "dict_get_or d k dflt = (case d k of None \<Rightarrow> dflt | Some v \<Rightarrow> v)"

text \<open>\<^verbatim>\<open>str(v)\<close>, which is also what a replacement field \<^verbatim>\<open>{v}\<close> of an f-string gives.\<close>

fun digits10 :: "nat \<Rightarrow> string" where
  "digits10 n =
     (if n < 10 then [char_of (48 + n)]
      else digits10 (n div 10) @ [char_of (48 + n mod 10)])"

declare digits10.simps [simp del]

definition str_int :: "int \<Rightarrow> string" where
  "str_int i = (if i < 0 then CHR ''-'' # digits10 (nat (- i)) else digits10 (nat i))"

fun py_str :: "pyval \<Rightarrow> string" where
  "py_str PNone = ''None''"
| "py_str (PBool b) = (if b then ''True'' else ''False'')"
| "py_str (PInt n) = str_int n"
| "py_str (PStr s) = s"

section \<open>scripts/gracenote.py\<close>

text \<open>
  One entry of the grid response: the dictionary of its scalar keys (\<^verbatim>\<open>startTime\<close>,
  \<^verbatim>\<open>endTime\<close>, \<^verbatim>\<open>rating\<close>), and what it has under its key \<^verbatim>\<open>program\<close>: nothing, a
  dictionary, or a value that is no dictionary (\<^verbatim>\<open>null\<close>, a number, a string), on which
  \<^verbatim>\<open>.get\<close> raises. The response itself is a dictionary from dates to lists of entries.
\<close>

datatype program_value = Missing | Dict pydict | NoDict

record raw_program =
  rp_fields :: pydict
  rp_program :: program_value

type_synonym grid = "string \<rightharpoonup> raw_program list"

record gn_entry =
  gn_start :: string
  gn_end :: string
  gn_channel_id :: pyval
  gn_title :: pyval
  gn_episode_title :: pyval
  gn_description :: pyval
  gn_season :: pyval
  gn_episode :: pyval
  gn_rating :: pyval
  gn_language :: pyval

text \<open>
  \<^verbatim>\<open>datetime.fromtimestamp(v).strftime("%Y%m%d%H%M%S")\<close>. The conversion of an integer
  timestamp to the local time of the machine is the parameter \<open>host\<close>, \<open>None\<close> where it
  raises (a timestamp out of range). A value that is no number raises TypeError, and a
  boolean counts as 0 or 1.
\<close>

fun local_time_str :: "(int \<Rightarrow> string option) \<Rightarrow> pyval \<Rightarrow> string option" where
  "local_time_str host (PInt n) = host n"
| "local_time_str host (PBool b) = host (if b then 1 else 0)"
| "local_time_str host PNone = None"
| "local_time_str host (PStr s) = None"

text \<open>
  The body of the \<^verbatim>\<open>try\<close> block of \<^verbatim>\<open>process_channel\<close>. \<open>entry_of\<close> is the dictionary
  \<^verbatim>\<open>program_entry\<close> that the block builds from the two time strings and \<^verbatim>\<open>prog_info\<close>;
  \<open>program_entry\<close> is the entry that the block appends, or \<open>None\<close> when an exception is
  caught and the loop goes on with the next program.
\<close>

definition entry_of ::
  "pydict \<Rightarrow> raw_program \<Rightarrow> string \<Rightarrow> string \<Rightarrow> pydict \<Rightarrow> gn_entry" where
  "entry_of channel_data program start_str end_str prog_info =
     (let season = dict_get prog_info ''season'';
          episode = dict_get prog_info ''episode''
      in \<lparr> gn_start = start_str,
           gn_end = end_str,
           gn_channel_id = py_or (dict_get channel_data ''xmltv_id'')
                                 (dict_get channel_data ''site_id''),
           gn_title = dict_get_or prog_info ''title'' (PStr ''Unknown''),
           gn_episode_title = dict_get prog_info ''episodeTitle'',
           gn_description = dict_get prog_info ''shortDesc'',
           gn_season = (if season \<noteq> PNone then season else PNone),
           gn_episode = (if episode \<noteq> PNone then episode else PNone),
           gn_rating = dict_get (rp_fields program) ''rating'',
           gn_language = dict_get channel_data ''language'' \<rparr>)"

definition program_entry :: "(int \<Rightarrow> string option) \<Rightarrow> pydict \<Rightarrow> raw_program \<Rightarrow> gn_entry option" where
  "program_entry host channel_data program =
     (case local_time_str host (dict_get (rp_fields program) ''startTime'') of
        None \<Rightarrow> None
      | Some start_str \<Rightarrow>
          (case local_time_str host (dict_get (rp_fields program) ''endTime'') of
             None \<Rightarrow> None
           | Some end_str \<Rightarrow>
               (case rp_program program of
                  Missing \<Rightarrow> Some (entry_of channel_data program start_str end_str Map.empty)
                | Dict prog_info \<Rightarrow>
                    Some (entry_of channel_data program start_str end_str prog_info)
                | NoDict \<Rightarrow> None)))"

text \<open>
  The body of the loop over the dates. \<open>fetch\<close> stands for \<^verbatim>\<open>fetch_program_data\<close>: the
  response of the service, or \<open>None\<close> when the request failed. An empty response is skipped
  by the source and has no programs under any date, which is the same result.
\<close>

definition date_programs :: "(pydict \<Rightarrow> string \<Rightarrow> grid option) \<Rightarrow> pydict \<Rightarrow> string \<Rightarrow> raw_program list" where
  "date_programs fetch channel_data date_str =
     (case fetch channel_data date_str of
        None \<Rightarrow> []
      | Some program_data \<Rightarrow>
          (case program_data date_str of None \<Rightarrow> [] | Some ps \<Rightarrow> ps))"

definition append_program ::
  "(int \<Rightarrow> string option) \<Rightarrow> pydict \<Rightarrow> raw_program \<Rightarrow> gn_entry list \<Rightarrow> gn_entry list" where
  "append_program host channel_data program all_programs =
     (case program_entry host channel_data program of
        None \<Rightarrow> all_programs
      | Some e \<Rightarrow> all_programs @ [e])"

definition process_channel ::
  "(pydict \<Rightarrow> string \<Rightarrow> grid option) \<Rightarrow> (int \<Rightarrow> string option) \<Rightarrow> pydict \<Rightarrow> string list
     \<Rightarrow> gn_entry list" where
  "process_channel fetch host channel_data dates =
     fold (\<lambda>date_str all_programs.
             fold (append_program host channel_data)
               (date_programs fetch channel_data date_str) all_programs)
       dates []"

text \<open>\<^verbatim>\<open>create_xmltv\<close> of gracenote.py, up to the tree that it hands to the serialiser.\<close>

definition gn_tv_root :: py_element where
  "gn_tv_root =
     Element ''tv''
       [(''source-info-name'', PStr ''Gracenote TV Listings''),
        (''source-info-url'', PStr ''https://tvlistings.gracenote.com''),
        (''generator-info-name'', PStr ''Gracenote TV Converter'')]
       PNone []"

definition gn_channel_element :: "pydict \<Rightarrow> py_element" where
  "gn_channel_element channel =
     (let channel_id = py_or (dict_get channel ''xmltv_id'') (dict_get channel ''site_id'')
      in Element ''channel'' [(''id'', PStr (py_str channel_id))] PNone
           [Element ''display-name'' [] (dict_get_or channel ''name'' (PStr ''Unknown'')) []])"

text \<open>\<^verbatim>\<open>if lang: elem.set("lang", lang)\<close> on a new element.\<close>

definition lang_attrib :: "pyval \<Rightarrow> (string \<times> pyval) list" where
  "lang_attrib lang = (if truthy lang then [(''lang'', lang)] else [])"

definition episode_nums :: "pyval \<Rightarrow> pyval \<Rightarrow> py_element list" where
  "episode_nums season episode =
     [Element ''episode-num'' [(''system'', PStr ''xmltv_ns'')]
        (PStr (py_str season @ ''.'' @ py_str episode @ ''.0'')) [],
      Element ''episode-num'' [(''system'', PStr ''onscreen'')]
        (PStr (''S'' @ py_str season @ ''E'' @ py_str episode)) []]"

definition rating_element :: "pyval \<Rightarrow> py_element" where
  "rating_element rating = Element ''rating'' [] PNone [Element ''value'' [] rating []]"

definition gn_programme_element :: "gn_entry \<Rightarrow> py_element" where
  "gn_programme_element program =
     Element ''programme''
       [(''start'', PStr (gn_start program @ '' +0000'')),
        (''stop'', PStr (gn_end program @ '' +0000'')),
        (''channel'', PStr (py_str (gn_channel_id program)))]
       PNone
       ([Element ''title'' (lang_attrib (gn_language program)) (gn_title program) []]
        @ (if truthy (gn_episode_title program)
           then [Element ''sub-title'' (lang_attrib (gn_language program))
                   (gn_episode_title program) []]
           else [])
        @ (if truthy (gn_description program)
           then [Element ''desc'' (lang_attrib (gn_language program))
                   (gn_description program) []]
           else [])
        @ (if gn_season program \<noteq> PNone \<and> gn_episode program \<noteq> PNone
           then episode_nums (gn_season program) (gn_episode program)
           else [])
        @ (if truthy (gn_rating program) then [rating_element (gn_rating program)] else []))"

definition gn_create_xmltv :: "pydict list \<Rightarrow> gn_entry list \<Rightarrow> py_element" where
  "gn_create_xmltv channels programs' =
     fold (\<lambda>program tv. SubElement tv (gn_programme_element program)) programs'
       (fold (\<lambda>channel tv. SubElement tv (gn_channel_element channel)) channels gn_tv_root)"

section \<open>scripts/gracenote_to_xmltv.py\<close>

record gx_entry =
  gx_start :: string
  gx_stop :: string
  gx_channel_id :: pyval
  gx_title :: pyval
  gx_short_desc :: pyval
  gx_rating :: pyval
  gx_season :: pyval
  gx_episode :: pyval
  gx_episode_title :: pyval
  gx_lang :: pyval

definition gx_tv_root :: py_element where
  "gx_tv_root =
     Element ''tv''
       [(''source-info-name'', PStr ''Gracenote TV Listings''),
        (''source-info-url'', PStr ''https://tvlistings.gracenote.com''),
        (''generator-info-name'', PStr ''Gracenote TV Converter'')]
       PNone []"

definition gx_add_channel :: "pydict \<Rightarrow> py_element \<Rightarrow> py_element" where
  "gx_add_channel channel tv =
     (let channel_id = py_or (dict_get channel ''xmltv_id'') (dict_get channel ''site_id'')
      in if \<not> truthy channel_id then tv
         else SubElement tv
                (Element ''channel'' [(''id'', channel_id)] PNone
                   [Element ''display-name'' [] (dict_get_or channel ''name'' (PStr '''')) []]))"

definition gx_programme_element :: "gx_entry \<Rightarrow> py_element" where
  "gx_programme_element program =
     Element ''programme''
       [(''start'', PStr (gx_start program @ '' +0000'')),
        (''stop'', PStr (gx_stop program @ '' +0000'')),
        (''channel'', gx_channel_id program)]
       PNone
       ([Element ''title'' (lang_attrib (gx_lang program)) (gx_title program) []]
        @ (if truthy (gx_episode_title program)
           then [Element ''sub-title'' (lang_attrib (gx_lang program))
                   (gx_episode_title program) []]
           else [])
        @ (if truthy (gx_short_desc program)
           then [Element ''desc'' (lang_attrib (gx_lang program)) (gx_short_desc program) []]
           else [])
        @ (if truthy (gx_season program) \<and> truthy (gx_episode program)
           then episode_nums (gx_season program) (gx_episode program)
           else [])
        @ (if truthy (gx_rating program) then [rating_element (gx_rating program)] else []))"

definition gx_create_xmltv :: "pydict list \<Rightarrow> gx_entry list list \<Rightarrow> py_element" where
  "gx_create_xmltv channels all_programs =
     fold (\<lambda>channel_programs tv.
             fold (\<lambda>program tv. SubElement tv (gx_programme_element program))
               channel_programs tv)
       all_programs
       (fold gx_add_channel channels gx_tv_root)"

section \<open>Reading documents and time strings\<close>

text \<open>
  The functions of this section are not in the scripts: they read the trees and strings
  that the scripts produce, so that properties of the output can be stated.
\<close>

text \<open>The direct children with a given tag, and the elements of a whole tree with it.\<close>

definition findall_children :: "string \<Rightarrow> ('a, 't) element \<Rightarrow> ('a, 't) element list" where
  "findall_children t e = filter (\<lambda>c. tag c = t) (children e)"

definition elements_tagged :: "string \<Rightarrow> ('a, 't) element \<Rightarrow> ('a, 't) element list" where
  "elements_tagged t e = filter (\<lambda>x. tag x = t) (iter e)"

text \<open>
  Document order of XMLTV on the list of the tags of the children of \<^verbatim>\<open>tv\<close>: no
  \<^verbatim>\<open>channel\<close> comes after a \<^verbatim>\<open>programme\<close>.
\<close>

fun channels_before_programmes :: "string list \<Rightarrow> bool" where
  "channels_before_programmes [] = True"
| "channels_before_programmes (t # ts) =
     (if t = ''programme'' then ''channel'' \<notin> set ts \<and> channels_before_programmes ts
      else channels_before_programmes ts)"

text \<open>
  The elements that one channel record contributes to the document of
  \<^verbatim>\<open>create_xmltv_output\<close>: its channel element, then its programmes.
\<close>

definition channel_block :: "channel_info \<Rightarrow> xml_element list" where
  "channel_block ci =
     channel_element ci
     # map (programme_element (channel_id ci) (language ci))
         (filter (\<lambda>p. title p \<noteq> '''') (programs ci))"

text \<open>
  A time string \<^verbatim>\<open>YYYYMMDDHHMMSS\<close>: its day (the first eight characters) and the second
  of the day that the last six digits denote.
\<close>

definition digits_value :: "string \<Rightarrow> nat" where
  "digits_value s = foldl (\<lambda>n c. 10 * n + (of_char c - 48)) 0 s"

definition wire_day :: "string \<Rightarrow> string" where
  "wire_day s = take 8 s"

definition wire_second_of_day :: "string \<Rightarrow> nat" where
  "wire_second_of_day s =
     3600 * digits_value (take 2 (drop 8 s)) + 60 * digits_value (take 2 (drop 10 s))
     + digits_value (take 2 (drop 12 s))"

text \<open>
  A machine whose local time is UTC, as a value for the parameter \<open>host\<close>: the civil date
  of the day number (days since 1970-01-01) in the proleptic Gregorian calendar, the
  years 1 to 9999 that \<^verbatim>\<open>datetime\<close> supports, and the fixed-width rendering.
\<close>

definition civil_from_days :: "int \<Rightarrow> int \<times> int \<times> int" where
  "civil_from_days z0 =
     (let z = z0 + 719468;
          era = z div 146097;
          doe = z - era * 146097;
          yoe = (doe - doe div 1460 + doe div 36524 - doe div 146096) div 365;
          doy = doe - (365 * yoe + yoe div 4 - yoe div 100);
          mp = (5 * doy + 2) div 153;
          d = doy - (153 * mp + 2) div 5 + 1;
          m = (if mp < 10 then mp + 3 else mp - 9);
          y = yoe + era * 400 + (if m \<le> 2 then 1 else 0)
      in (y, m, d))"

definition zero_pad :: "nat \<Rightarrow> int \<Rightarrow> string" where
  "zero_pad w n =
     (let ds = digits10 (nat n) in replicate (w - length ds) (CHR ''0'') @ ds)"

definition utc_host :: "int \<Rightarrow> string option" where
  "utc_host t =
     (let secs = t mod 86400 in
      case civil_from_days (t div 86400) of
        (y, m, d) \<Rightarrow>
          if 1 \<le> y \<and> y \<le> 9999
          then Some (zero_pad 4 y @ zero_pad 2 m @ zero_pad 2 d
                     @ zero_pad 2 (secs div 3600) @ zero_pad 2 (secs mod 3600 div 60)
                     @ zero_pad 2 (secs mod 60))
          else None)"

section \<open>The document built by create_xmltv_output\<close>

lemma children_SubElement: "children (SubElement p c) = children p @ [c]"
  by (simp add: SubElement_def)

lemma children_fold_add_program:
  "children (fold (add_program cid l) ps tv) =
     children tv @ map (programme_element cid l) (filter (\<lambda>p. title p \<noteq> '''') ps)"
  by (induction ps arbitrary: tv) (simp_all add: add_program_def children_SubElement)

lemma children_add_channel: "children (add_channel ci tv) = children tv @ channel_block ci"
  by (simp add: add_channel_def children_fold_add_program children_SubElement channel_block_def)

lemma children_fold_add_channel:
  "children (fold add_channel cs tv) = children tv @ concat (map channel_block cs)"
  by (induction cs arbitrary: tv) (simp_all add: children_add_channel)

lemma children_create_xmltv_output:
  "children (create_xmltv_output cs) = concat (map channel_block cs)"
  by (simp add: create_xmltv_output_def children_fold_add_channel tv_root_def)

lemma channels_before_programmes_append:
  assumes "\<forall>t \<in> set xs. t \<noteq> ''programme''" 
  shows "channels_before_programmes (xs @ ys) = channels_before_programmes ys"
  using assms by (induction xs) simp_all

lemma channels_before_programmes_no_channel:
  assumes "''channel'' \<notin> set ys"
  shows "channels_before_programmes ys"
  using assms by (induction ys) simp_all

text \<open>
  The order test says what it should: no position holding \<^verbatim>\<open>programme\<close> is followed by a
  position holding \<^verbatim>\<open>channel\<close>.
\<close>

lemma channels_before_programmes_iff:
  "channels_before_programmes ts \<longleftrightarrow>
     (\<forall>i j. i < j \<and> j < length ts \<and> ts ! i = ''programme'' \<longrightarrow> ts ! j \<noteq> ''channel'')"
proof (induction ts)
  case Nil
  then show ?case by simp
next
  case (Cons t ts)
  have tail: "(\<forall>i j. i < j \<and> j < length (t # ts) \<and> (t # ts) ! i = ''programme''
                  \<longrightarrow> (t # ts) ! j \<noteq> ''channel'')
              \<longleftrightarrow> ((t = ''programme'' \<longrightarrow> ''channel'' \<notin> set ts)
                   \<and> (\<forall>i j. i < j \<and> j < length ts \<and> ts ! i = ''programme''
                          \<longrightarrow> ts ! j \<noteq> ''channel''))"
    (is "?L \<longleftrightarrow> ?H \<and> ?T")
  proof
    assume L: ?L
    have "?H"
    proof
      assume t: "t = ''programme''"
      show "''channel'' \<notin> set ts"
      proof
        assume "''channel'' \<in> set ts"
        then obtain k where k: "k < length ts" "ts ! k = ''channel''"
          by (auto simp: in_set_conv_nth)
        from L have "0 < Suc k \<and> Suc k < length (t # ts) \<and> (t # ts) ! 0 = ''programme''
                       \<longrightarrow> (t # ts) ! Suc k \<noteq> ''channel''"
          by blast
        with t k show False by simp
      qed
    qed
    moreover have "?T"
    proof (intro allI impI)
      fix i j
      assume a: "i < j \<and> j < length ts \<and> ts ! i = ''programme''"
      from L have "Suc i < Suc j \<and> Suc j < length (t # ts) \<and> (t # ts) ! Suc i = ''programme''
                     \<longrightarrow> (t # ts) ! Suc j \<noteq> ''channel''"
        by blast
      with a show "ts ! j \<noteq> ''channel''" by simp
    qed
    ultimately show "?H \<and> ?T" ..
  next
    assume HT: "?H \<and> ?T"
    show ?L
    proof (intro allI impI)
      fix i j
      assume a: "i < j \<and> j < length (t # ts) \<and> (t # ts) ! i = ''programme''"
      then obtain j' where j': "j = Suc j'" "j' < length ts"
        by (cases j) auto
      show "(t # ts) ! j \<noteq> ''channel''"
      proof (cases i)
        case 0
        with a HT have "''channel'' \<notin> set ts" by simp
        with j' show ?thesis by (auto simp: in_set_conv_nth)
      next
        case (Suc i')
        with a j' have "i' < j' \<and> j' < length ts \<and> ts ! i' = ''programme''" by simp
        with HT have "ts ! j' \<noteq> ''channel''" by blast
        with j' show ?thesis by simp
      qed
    qed
  qed
  from Cons.IH show ?case
    unfolding tail by auto
qed

text \<open>
  C1. The claim is that in the document of every builder all channel elements come
  before all programme elements. The builder of service/fuel/main.py adds the programmes
  of a channel right after the channel element, inside the loop over the channels: with
  two channels, the first of which has a program with a title, the children of \<^verbatim>\<open>tv\<close>
  are a channel, a programme and a channel, in this order.
\<close>

theorem fuel_channel_after_programme:
  "map tag (children (create_xmltv_output
      [\<lparr>channel_id = ''1'', display_name = ''One'', language = ''en'',
         programs = [\<lparr>start = '''', stop = '''', title = ''News'', desc = ''''\<rparr>]\<rparr>,
       \<lparr>channel_id = ''2'', display_name = ''Two'', language = ''en'', programs = []\<rparr>]))
     = [''channel'', ''programme'', ''channel'']
   \<and> \<not> channels_before_programmes (map tag (children (create_xmltv_output
      [\<lparr>channel_id = ''1'', display_name = ''One'', language = ''en'',
         programs = [\<lparr>start = '''', stop = '''', title = ''News'', desc = ''''\<rparr>]\<rparr>,
       \<lparr>channel_id = ''2'', display_name = ''Two'', language = ''en'', programs = []\<rparr>])))"
  by (simp add: children_create_xmltv_output channel_block_def channel_element_def
      programme_element_def)


section \<open>The extractor\<close>

text \<open>
  C2, as stated, fails. The claim is about every document that contains an element tagged
  \<^verbatim>\<open>programme\<close> and an element tagged \<^verbatim>\<open>item\<close>. The path \<^verbatim>\<open>.//programme\<close> does not
  select the root: in a document whose only \<^verbatim>\<open>programme\<close> element is the root, method 1
  finds nothing and the records of the \<^verbatim>\<open>item\<close> elements are returned.
\<close>

theorem programme_root_counterexample:
  "elements_tagged ''programme''
     (Element ''programme'' [(''start'', ''20240101000000''), (''stop'', ''20240101010000'')] None
        [Element ''title'' [] (Some ''News'') [],
         Element ''item'' [] None [Element ''title'' [] (Some ''Feed'') []]])
     \<noteq> []
   \<and> elements_tagged ''item''
     (Element ''programme'' [(''start'', ''20240101000000''), (''stop'', ''20240101010000'')] None
        [Element ''title'' [] (Some ''News'') [],
         Element ''item'' [] None [Element ''title'' [] (Some ''Feed'') []]])
     = [Element ''item'' [] None [Element ''title'' [] (Some ''Feed'') []]]
   \<and> parse_programs
     (Element ''programme'' [(''start'', ''20240101000000''), (''stop'', ''20240101010000'')] None
        [Element ''title'' [] (Some ''News'') [],
         Element ''item'' [] None [Element ''title'' [] (Some ''Feed'') []]]) ''en''
     = [item_fields (Element ''item'' [] None [Element ''title'' [] (Some ''Feed'') []])]
   \<and> parse_programs
     (Element ''programme'' [(''start'', ''20240101000000''), (''stop'', ''20240101010000'')] None
        [Element ''title'' [] (Some ''News'') [],
         Element ''item'' [] None [Element ''title'' [] (Some ''Feed'') []]]) ''en''
     = [\<lparr>start = '''', stop = '''', title = ''Feed'', desc = ''''\<rparr>]"
  by (simp add: elements_tagged_def parse_programs_def findall_desc_def descendants_def
      item_fields_def text_or_def find_child_def strip_def isspace_def)

text \<open>
  C2, amended. When the document has at least one \<^verbatim>\<open>programme\<close> element beneath its
  root, the result is exactly the list of the records of these \<^verbatim>\<open>programme\<close> elements,
  in document order, whatever \<^verbatim>\<open>item\<close> elements the document has.
\<close>

theorem programme_shape_priority:
  assumes "findall_desc ''programme'' xml_root \<noteq> []"
  shows "parse_programs xml_root lang
           = map programme_fields (findall_desc ''programme'' xml_root)"
  using assms by (simp add: parse_programs_def)

theorem programme_shape_priority_witness:
  "findall_desc ''programme''
     (Element ''tv'' [] None
        [Element ''programme'' [(''start'', ''20240101000000''), (''stop'', ''20240101010000'')]
           None [Element ''title'' [] (Some ''News'') []],
         Element ''item'' [] None [Element ''title'' [] (Some ''Feed'') []]]) \<noteq> []
   \<and> findall_desc ''item''
     (Element ''tv'' [] None
        [Element ''programme'' [(''start'', ''20240101000000''), (''stop'', ''20240101010000'')]
           None [Element ''title'' [] (Some ''News'') []],
         Element ''item'' [] None [Element ''title'' [] (Some ''Feed'') []]]) \<noteq> []
   \<and> parse_programs
     (Element ''tv'' [] None
        [Element ''programme'' [(''start'', ''20240101000000''), (''stop'', ''20240101010000'')]
           None [Element ''title'' [] (Some ''News'') []],
         Element ''item'' [] None [Element ''title'' [] (Some ''Feed'') []]]) ''en''
     = [\<lparr>start = ''20240101000000'', stop = ''20240101010000'', title = ''News'',
         desc = ''''\<rparr>]"
  using programme_shape_priority [of
      "Element ''tv'' [] None
        [Element ''programme'' [(''start'', ''20240101000000''), (''stop'', ''20240101010000'')]
           None [Element ''title'' [] (Some ''News'') []],
         Element ''item'' [] None [Element ''title'' [] (Some ''Feed'') []]]" "''en''"]
  by (simp add: findall_desc_def descendants_def programme_fields_def get_attr_def
      text_or_def find_child_def strip_def isspace_def)

text \<open>A document whose root has no children gives no program, whatever its tag.\<close>

lemma title_generic_fields_childless:
  "children elem = [] \<Longrightarrow> title (generic_fields elem) = ''''"
  by (simp add: generic_fields_def)

lemma parse_programs_childless: "parse_programs (Element t a x []) lang = []"
  by (simp add: parse_programs_def findall_desc_def descendants_def generic_programs_def
      title_generic_fields_childless)

text \<open>
  C3. When the document has no \<^verbatim>\<open>programme\<close> and no \<^verbatim>\<open>item\<close> element beneath its root, and
  every element of the third shape (a tag ending in \<^verbatim>\<open>program\<close> or \<^verbatim>\<open>show\<close>) is left
  without a title by the scan of its children, \<^verbatim>\<open>parse_programs\<close> returns the empty list.
  The function is total: it returns on every document, and no branch of it raises.
\<close>

theorem no_shape_no_programs:
  assumes "findall_desc ''programme'' xml_root = []"
    and "findall_desc ''item'' xml_root = []"
    and "\<forall>elem \<in> set (iter xml_root). is_program_like elem \<longrightarrow> title (generic_fields elem) = ''''"
  shows "parse_programs xml_root lang = []"
proof -
  have "generic_programs xml_root = []"
    unfolding generic_programs_def filter_empty_conv using assms(3) by auto
  with assms(1,2) show ?thesis
    by (simp add: parse_programs_def)
qed

theorem no_shape_no_programs_witness:
  "parse_programs (Element ''rss'' [] None []) ''en'' = []
   \<and> parse_programs
       (Element ''rss'' [] None
          [Element ''channel'' [] None [Element ''title'' [] (Some ''Feed'') []],
           Element ''show'' [(''start'', ''20240101000000'')] None
             [Element ''desc'' [] (Some ''no title here'') []]]) ''en'' = []"
proof -
  have "parse_programs (Element ''rss'' [] None []) ''en'' = []"
    by (rule no_shape_no_programs)
      (simp_all add: findall_desc_def descendants_def is_program_like_def endswith_def)
  moreover have "parse_programs
       (Element ''rss'' [] None
          [Element ''channel'' [] None [Element ''title'' [] (Some ''Feed'') []],
           Element ''show'' [(''start'', ''20240101000000'')] None
             [Element ''desc'' [] (Some ''no title here'') []]]) ''en'' = []"
    by (rule no_shape_no_programs)
      (simp_all add: findall_desc_def descendants_def is_program_like_def endswith_def
        generic_fields_def scan_child_def)
  ultimately show ?thesis ..
qed


section \<open>Start and stop times in create_xmltv_output\<close>

lemma add_program_titled:
  "title program \<noteq> '''' \<Longrightarrow>
     children (add_program cid lang program tv)
       = children tv @ [programme_element cid lang program]"
  by (simp add: add_program_def children_SubElement)

lemma add_program_untitled: "title program = '''' \<Longrightarrow> add_program cid lang program tv = tv"
  by (simp add: add_program_def)

lemma attrib_programme_element:
  "attrib (programme_element cid lang program)
     = [(''start'', start_time program), (''stop'', stop_time program), (''channel'', cid)]"
  by (simp add: programme_element_def)

lemma start_time_nonempty: "start_time program \<noteq> ''''"
  by (simp add: start_time_def)

lemma stop_time_nonempty: "stop_time program \<noteq> ''''"
  by (simp add: stop_time_def)

text \<open>
  C4, as stated, fails: the day of the sentinel is not the day of epoch zero. For a
  candidate with a title and empty \<^verbatim>\<open>start\<close> and \<^verbatim>\<open>stop\<close> the programme gets the start
  \<^verbatim>\<open>20000101000000\<close>, on 1 January 2000, where epoch zero is on \<^verbatim>\<open>19700101\<close>.
\<close>

theorem sentinel_day_counterexample:
  "get_attr (programme_element ''5'' ''en''
       \<lparr>start = '''', stop = '''', title = ''News'', desc = ''''\<rparr>) ''start'' ''''
     = ''20000101000000''
   \<and> wire_day (get_attr (programme_element ''5'' ''en''
       \<lparr>start = '''', stop = '''', title = ''News'', desc = ''''\<rparr>) ''start'' '''')
     \<noteq> ''19700101''
   \<and> wire_day (get_attr (programme_element ''5'' ''en''
       \<lparr>start = '''', stop = '''', title = ''News'', desc = ''''\<rparr>) ''stop'' '''')
     \<noteq> ''19700101''"
  by (simp add: get_attr_def attrib_programme_element start_time_def stop_time_def wire_day_def)

text \<open>
  C4, amended. A candidate with a title always adds one programme element to the
  document, with the attributes \<^verbatim>\<open>start\<close>, \<^verbatim>\<open>stop\<close> and \<^verbatim>\<open>channel\<close>, none of the first two
  empty, and a \<^verbatim>\<open>title\<close> child. An empty \<^verbatim>\<open>start\<close> is replaced by \<^verbatim>\<open>20000101000000\<close> and an
  empty \<^verbatim>\<open>stop\<close> by \<^verbatim>\<open>20000101010000\<close>: both on 1 January 2000, the second 3600 seconds
  after the first.
\<close>

theorem sentinel_times:
  assumes "title program \<noteq> ''''"
  shows "children (add_program cid lang program tv)
           = children tv @ [programme_element cid lang program]
         \<and> tag (programme_element cid lang program) = ''programme''
         \<and> map fst (attrib (programme_element cid lang program))
             = [''start'', ''stop'', ''channel'']
         \<and> get_attr (programme_element cid lang program) ''start'' '''' \<noteq> ''''
         \<and> get_attr (programme_element cid lang program) ''stop'' '''' \<noteq> ''''
         \<and> findall_children ''title'' (programme_element cid lang program)
             = [Element ''title'' [(''lang'', lang)] (Some (title program)) []]
         \<and> (start program = '''' \<longrightarrow>
              get_attr (programme_element cid lang program) ''start'' '''' = ''20000101000000'')
         \<and> (stop program = '''' \<longrightarrow>
              get_attr (programme_element cid lang program) ''stop'' '''' = ''20000101010000'')
         \<and> wire_day ''20000101000000'' = ''20000101''
         \<and> wire_day ''20000101010000'' = ''20000101''
         \<and> wire_second_of_day ''20000101010000''
             = wire_second_of_day ''20000101000000'' + 3600"
proof -
  have "findall_children ''title'' (programme_element cid lang program)
          = [Element ''title'' [(''lang'', lang)] (Some (title program)) []]"
    by (simp add: findall_children_def programme_element_def)
  moreover have "wire_second_of_day ''20000101010000''
                   = wire_second_of_day ''20000101000000'' + 3600"
    by (simp add: wire_second_of_day_def digits_value_def)
  moreover have "tag (programme_element cid lang program) = ''programme''"
    by (simp add: programme_element_def)
  ultimately show ?thesis
    using assms
    by (simp add: add_program_titled attrib_programme_element get_attr_def
        start_time_def stop_time_def wire_day_def)
qed

theorem sentinel_times_witness:
  "children (add_program ''5'' ''en''
       \<lparr>start = '''', stop = '''', title = ''News'', desc = ''''\<rparr> tv_root)
     = [Element ''programme''
          [(''start'', ''20000101000000''), (''stop'', ''20000101010000''), (''channel'', ''5'')]
          None [Element ''title'' [(''lang'', ''en'')] (Some ''News'') []]]"
  using sentinel_times [of "\<lparr>start = '''', stop = '''', title = ''News'', desc = ''''\<rparr>"
      "''5''" "''en''" tv_root]
  by (simp add: tv_root_def programme_element_def start_time_def stop_time_def)

text \<open>
  C9. A \<^verbatim>\<open>programme\<close> element of the input with non-empty attributes \<^verbatim>\<open>start\<close> and \<^verbatim>\<open>stop\<close>:
  the extracted record holds the two strings as they are, and the programme element
  built from the record carries them unchanged. Replacing an empty time by its default
  a second time changes nothing.
\<close>

theorem preformatted_times_pass_through:
  assumes "map_of (attrib prog) ''start'' = Some s" and "s \<noteq> ''''"
    and "map_of (attrib prog) ''stop'' = Some e" and "e \<noteq> ''''"
  shows "start (programme_fields prog) = s
         \<and> stop (programme_fields prog) = e
         \<and> attrib (programme_element cid lang (programme_fields prog))
             = [(''start'', s), (''stop'', e), (''channel'', cid)]
         \<and> start_time (pd\<lparr>start := start_time pd\<rparr>) = start_time pd
         \<and> stop_time (pd\<lparr>stop := stop_time pd\<rparr>) = stop_time pd"
  using assms
  by (simp add: programme_fields_def get_attr_def attrib_programme_element
      start_time_def stop_time_def)

theorem preformatted_times_pass_through_witness:
  "attrib (programme_element ''5'' ''en''
      (programme_fields
         (Element ''programme''
            [(''start'', ''20240101093000 +0100''), (''stop'', ''20240101100000 +0100'')] None
            [Element ''title'' [] (Some ''News'') []])))
     = [(''start'', ''20240101093000 +0100''), (''stop'', ''20240101100000 +0100''),
        (''channel'', ''5'')]
   \<and> children (create_xmltv_output
        [\<lparr>channel_id = ''5'', display_name = ''Test'', language = ''en'',
           programs = parse_programs
             (Element ''tv'' [] None
                [Element ''programme''
                   [(''start'', ''20240101093000 +0100''), (''stop'', ''20240101100000 +0100'')]
                   None [Element ''title'' [] (Some ''News'') []]]) ''en''\<rparr>])
     = [Element ''channel'' [(''id'', ''5'')] None [Element ''display-name'' [] (Some ''Test'') []],
        Element ''programme''
          [(''start'', ''20240101093000 +0100''), (''stop'', ''20240101100000 +0100''),
           (''channel'', ''5'')]
          None [Element ''title'' [(''lang'', ''en'')] (Some ''News'') []]]"
proof -
  let ?prog = "Element ''programme''
         [(''start'', ''20240101093000 +0100''), (''stop'', ''20240101100000 +0100'')] None
         [Element ''title'' [] (Some ''News'') []] :: xml_element"
  have attrs: "attrib (programme_element ''5'' ''en'' (programme_fields ?prog))
     = [(''start'', ''20240101093000 +0100''), (''stop'', ''20240101100000 +0100''),
        (''channel'', ''5'')]"
    using preformatted_times_pass_through [of ?prog
      "''20240101093000 +0100''" "''20240101100000 +0100''" "''5''" "''en''"]
    by simp
  have parsed: "parse_programs (Element ''tv'' [] None [?prog]) ''en'' = [programme_fields ?prog]"
    by (simp add: parse_programs_def findall_desc_def descendants_def)
  have titled: "title (programme_fields ?prog) = ''News''" "desc (programme_fields ?prog) = ''''"
    by (simp_all add: programme_fields_def text_or_def find_child_def strip_def isspace_def)
  have "children (create_xmltv_output
        [\<lparr>channel_id = ''5'', display_name = ''Test'', language = ''en'',
           programs = parse_programs (Element ''tv'' [] None [?prog]) ''en''\<rparr>])
     = [Element ''channel'' [(''id'', ''5'')] None [Element ''display-name'' [] (Some ''Test'') []],
        Element ''programme'' (attrib (programme_element ''5'' ''en'' (programme_fields ?prog)))
          None [Element ''title'' [(''lang'', ''en'')] (Some ''News'') []]]"
    unfolding parsed
    by (simp add: children_create_xmltv_output channel_block_def channel_element_def titled)
      (simp add: programme_element_def titled)
  with attrs show ?thesis by simp
qed

section \<open>Titles in the document of create_xmltv_output\<close>

lemma programme_in_channel_block:
  assumes "e \<in> set (channel_block ci)" and "tag e = ''programme''"
  shows "\<exists>p \<in> set (programs ci).
           title p \<noteq> '''' \<and> e = programme_element (channel_id ci) (language ci) p"
  using assms by (auto simp: channel_block_def channel_element_def)

lemma item_shape_programs:
  assumes "findall_desc ''programme'' xml_root = []"
  shows "parse_programs xml_root lang
           = (if findall_desc ''item'' xml_root = [] then generic_programs xml_root
              else map item_fields (findall_desc ''item'' xml_root))"
  using assms by (simp add: parse_programs_def)

text \<open>
  C10. Every \<^verbatim>\<open>programme\<close> child of the document of \<^verbatim>\<open>create_xmltv_output\<close> has exactly one
  \<^verbatim>\<open>title\<close> child, and its text is a non-empty string. An \<^verbatim>\<open>item\<close> without a \<^verbatim>\<open>title\<close>
  child is extracted with the empty title (when the item shape is the one that applies,
  its record is in the result), and a program with an empty title leaves the document as
  it is.
\<close>

theorem emitted_titles_nonempty:
  "(\<forall>e \<in> set (children (create_xmltv_output all_channels_data)).
       tag e = ''programme'' \<longrightarrow>
         (\<exists>a s. findall_children ''title'' e = [Element ''title'' a (Some s) []] \<and> s \<noteq> ''''))
   \<and> (find_child ''title'' item = None \<longrightarrow> title (item_fields item) = '''')
   \<and> (findall_desc ''programme'' xml_root = [] \<and> item \<in> set (findall_desc ''item'' xml_root)
        \<longrightarrow> item_fields item \<in> set (parse_programs xml_root lang))
   \<and> (title program = '''' \<longrightarrow> add_program cid l program tv = tv)"
proof -
  have "\<exists>a s. findall_children ''title'' e = [Element ''title'' a (Some s) []] \<and> s \<noteq> ''''"
    if e: "e \<in> set (children (create_xmltv_output all_channels_data))" "tag e = ''programme''"
    for e
  proof -
    from e(1) obtain ci where "ci \<in> set all_channels_data" "e \<in> set (channel_block ci)"
      by (auto simp: children_create_xmltv_output)
    with e(2) obtain p where p: "title p \<noteq> ''''"
        "e = programme_element (channel_id ci) (language ci) p"
      using programme_in_channel_block by blast
    then show ?thesis
      by (simp add: findall_children_def programme_element_def)
  qed
  moreover have "find_child ''title'' item = None \<longrightarrow> title (item_fields item) = ''''"
    by (simp add: item_fields_def text_or_def)
  moreover have "findall_desc ''programme'' xml_root = []
        \<and> item \<in> set (findall_desc ''item'' xml_root)
      \<longrightarrow> item_fields item \<in> set (parse_programs xml_root lang)"
    by (auto simp: item_shape_programs)
  moreover have "title program = '''' \<longrightarrow> add_program cid l program tv = tv"
    by (simp add: add_program_untitled)
  ultimately show ?thesis by blast
qed

theorem emitted_titles_nonempty_witness:
  "find_child ''title''
      (Element ''item'' [] None [Element ''description'' [] (Some ''no title'') []]
         :: xml_element) = None
   \<and> item_fields (Element ''item'' [] None [Element ''description'' [] (Some ''no title'') []])
       = \<lparr>start = '''', stop = '''', title = '''', desc = ''no title''\<rparr>
   \<and> \<lparr>start = '''', stop = '''', title = '''', desc = ''no title''\<rparr>
       \<in> set (parse_programs
                (Element ''rss'' [] None
                   [Element ''item'' [] None
                      [Element ''description'' [] (Some ''no title'') []],
                    Element ''item'' [] None [Element ''title'' [] (Some '' News '') []]])
                ''en'')
   \<and> add_program ''5'' ''en''
        \<lparr>start = '''', stop = '''', title = '''', desc = ''no title''\<rparr> tv_root = tv_root
   \<and> children (create_xmltv_output
        [\<lparr>channel_id = ''5'', display_name = ''Test'', language = ''en'',
           programs = [\<lparr>start = '''', stop = '''', title = '''', desc = ''no title''\<rparr>,
                       \<lparr>start = '''', stop = '''', title = ''News'', desc = ''''\<rparr>]\<rparr>])
     = [Element ''channel'' [(''id'', ''5'')] None [Element ''display-name'' [] (Some ''Test'') []],
        Element ''programme''
          [(''start'', ''20000101000000''), (''stop'', ''20000101010000''), (''channel'', ''5'')]
          None [Element ''title'' [(''lang'', ''en'')] (Some ''News'') []]]
   \<and> (\<exists>a s. findall_children ''title''
          (Element ''programme''
             [(''start'', ''20000101000000''), (''stop'', ''20000101010000''),
              (''channel'', ''5'')]
             None [Element ''title'' [(''lang'', ''en'')] (Some ''News'') []])
          = [Element ''title'' a (Some s) []] \<and> s \<noteq> '''')"
proof -
  let ?cs = "[\<lparr>channel_id = ''5'', display_name = ''Test'', language = ''en'',
           programs = [\<lparr>start = '''', stop = '''', title = '''', desc = ''no title''\<rparr>,
                       \<lparr>start = '''', stop = '''', title = ''News'', desc = ''''\<rparr>]\<rparr>]"
  let ?item = "Element ''item'' [] None [Element ''description'' [] (Some ''no title'') []]
                 :: xml_element"
  let ?root = "Element ''rss'' [] None
                 [?item, Element ''item'' [] None [Element ''title'' [] (Some '' News '') []]]"
  let ?pd = "\<lparr>start = '''', stop = '''', title = '''', desc = ''no title''\<rparr>"
  note inst = emitted_titles_nonempty [of ?cs ?item ?root "''en''" ?pd "''5''" "''en''" tv_root]
  have doc: "children (create_xmltv_output ?cs)
     = [Element ''channel'' [(''id'', ''5'')] None [Element ''display-name'' [] (Some ''Test'') []],
        Element ''programme''
          [(''start'', ''20000101000000''), (''stop'', ''20000101010000''), (''channel'', ''5'')]
          None [Element ''title'' [(''lang'', ''en'')] (Some ''News'') []]]"
    by (simp add: children_create_xmltv_output channel_block_def channel_element_def
        programme_element_def start_time_def stop_time_def)
  have no_title: "find_child ''title'' ?item = None"
    by (simp add: find_child_def)
  have fields: "item_fields ?item = ?pd"
    by (simp add: item_fields_def text_or_def find_child_def strip_def isspace_def)
  have shape: "findall_desc ''programme'' ?root = []"
    and found: "?item \<in> set (findall_desc ''item'' ?root)"
    by (simp_all add: findall_desc_def descendants_def)
  from inst shape found fields have extracted: "?pd \<in> set (parse_programs ?root ''en'')"
    by simp
  from inst have dropped: "add_program ''5'' ''en'' ?pd tv_root = tv_root"
    by simp
  from inst have "\<forall>e \<in> set (children (create_xmltv_output ?cs)).
       tag e = ''programme'' \<longrightarrow>
         (\<exists>a s. findall_children ''title'' e = [Element ''title'' a (Some s) []] \<and> s \<noteq> '''')"
    by blast
  with doc have titled: "\<exists>a s. findall_children ''title''
          (Element ''programme''
             [(''start'', ''20000101000000''), (''stop'', ''20000101010000''),
              (''channel'', ''5'')]
             None [Element ''title'' [(''lang'', ''en'')] (Some ''News'') []])
          = [Element ''title'' a (Some s) []] \<and> s \<noteq> ''''"
    by simp
  from no_title fields extracted dropped doc titled show ?thesis
    by (intro conjI)
qed


section \<open>The documents of the two Gracenote builders\<close>

lemma children_fold_SubElement:
  "children (fold (\<lambda>x tv. SubElement tv (f x)) xs tv) = children tv @ map f xs"
  by (induction xs arbitrary: tv) (simp_all add: children_SubElement)

lemma children_gn_create_xmltv:
  "children (gn_create_xmltv channels ps)
     = map gn_channel_element channels @ map gn_programme_element ps"
  by (simp add: gn_create_xmltv_def children_fold_SubElement gn_tv_root_def)

lemma tag_gn_channel_element: "tag (gn_channel_element channel) = ''channel''"
  by (simp add: gn_channel_element_def Let_def)

lemma tag_gn_programme_element: "tag (gn_programme_element program) = ''programme''"
  by (simp add: gn_programme_element_def)

lemma tag_gx_programme_element: "tag (gx_programme_element program) = ''programme''"
  by (simp add: gx_programme_element_def)

lemma children_fold_gx_add_channel:
  "children (fold gx_add_channel channels tv)
     = children tv
       @ map (\<lambda>channel.
                Element ''channel''
                  [(''id'', py_or (dict_get channel ''xmltv_id'') (dict_get channel ''site_id''))]
                  PNone
                  [Element ''display-name'' [] (dict_get_or channel ''name'' (PStr '''')) []])
           (filter (\<lambda>channel.
                      truthy (py_or (dict_get channel ''xmltv_id'')
                                (dict_get channel ''site_id'')))
              channels)"
  by (induction channels arbitrary: tv)
    (simp_all add: gx_add_channel_def Let_def children_SubElement)

lemma children_fold_fold_SubElement:
  "children (fold (\<lambda>xs tv. fold (\<lambda>x tv. SubElement tv (f x)) xs tv) xss tv)
     = children tv @ map f (concat xss)"
  by (induction xss arbitrary: tv) (simp_all add: children_fold_SubElement)

lemma children_gx_create_xmltv:
  "children (gx_create_xmltv channels all_programs)
     = map (\<lambda>channel.
              Element ''channel''
                [(''id'', py_or (dict_get channel ''xmltv_id'') (dict_get channel ''site_id''))]
                PNone
                [Element ''display-name'' [] (dict_get_or channel ''name'' (PStr '''')) []])
         (filter (\<lambda>channel.
                    truthy (py_or (dict_get channel ''xmltv_id'')
                              (dict_get channel ''site_id'')))
            channels)
       @ map gx_programme_element (concat all_programs)"
  by (simp add: gx_create_xmltv_def children_fold_fold_SubElement
      children_fold_gx_add_channel gx_tv_root_def)

text \<open>
  The two Gracenote builders add every channel before the first programme, so their
  documents are in XMLTV order on every input.
\<close>

lemma gn_channels_before_programmes:
  "channels_before_programmes (map tag (children (gn_create_xmltv channels ps)))"
proof -
  have "map tag (children (gn_create_xmltv channels ps))
          = map (\<lambda>c. ''channel'') channels @ map (\<lambda>p. ''programme'') ps"
    by (simp add: children_gn_create_xmltv tag_gn_channel_element tag_gn_programme_element
        comp_def)
  moreover have "channels_before_programmes
                   (map (\<lambda>c. ''channel'') channels @ map (\<lambda>p. ''programme'') ps)"
    by (subst channels_before_programmes_append)
      (auto intro: channels_before_programmes_no_channel)
  ultimately show ?thesis by simp
qed

lemma gx_channels_before_programmes:
  "channels_before_programmes (map tag (children (gx_create_xmltv channels all_programs)))"
proof -
  have "\<exists>n. map tag (children (gx_create_xmltv channels all_programs))
          = replicate n ''channel'' @ map (\<lambda>p. ''programme'') (concat all_programs)"
    by (rule exI [of _ "length (filter (\<lambda>channel.
                    truthy (py_or (dict_get channel ''xmltv_id'')
                              (dict_get channel ''site_id''))) channels)"])
      (simp add: children_gx_create_xmltv tag_gx_programme_element comp_def map_replicate_const)
  then obtain n where "map tag (children (gx_create_xmltv channels all_programs))
          = replicate n ''channel'' @ map (\<lambda>p. ''programme'') (concat all_programs)" ..
  moreover have "channels_before_programmes
                   (replicate n ''channel'' @ map (\<lambda>p. ''programme'') (concat all_programs))"
    by (subst channels_before_programmes_append)
      (auto intro: channels_before_programmes_no_channel)
  ultimately show ?thesis by simp
qed

text \<open>
  C7. The claim is that a channel whose resolved identifier (\<^verbatim>\<open>xmltv_id\<close>, else
  \<^verbatim>\<open>site_id\<close>) is empty or absent gets no channel element. \<^verbatim>\<open>create_xmltv\<close> of
  gracenote_to_xmltv.py skips such a channel (lemma \<open>children_gx_create_xmltv\<close>), but
  \<^verbatim>\<open>create_xmltv\<close> of gracenote.py has no such test: for a channel record with a name and
  neither identifier it emits a channel element whose id is the string \<^verbatim>\<open>None\<close>.
\<close>

theorem gn_channel_without_id_emitted:
  "children (gn_create_xmltv [[''name'' \<mapsto> PStr ''Test'']] [])
     = [Element ''channel'' [(''id'', PStr ''None'')] PNone
          [Element ''display-name'' [] (PStr ''Test'') []]]
   \<and> children (gx_create_xmltv [[''name'' \<mapsto> PStr ''Test'']] []) = []"
  by (simp add: children_gn_create_xmltv children_gx_create_xmltv gn_channel_element_def
      dict_get_def dict_get_or_def py_or_def)


section \<open>Season and episode\<close>

lemma str_int_digits:
  "str_int 0 = ''0'' \<and> str_int 1 = ''1'' \<and> str_int 2 = ''2'' \<and> str_int 5 = ''5''"
  by code_simp

lemma utc_host_scenario:
  "utc_host 1704100800 = Some ''20240101092000''
   \<and> utc_host 1704104400 = Some ''20240101102000''"
  by code_simp

lemma episode_num_children_gn:
  "findall_children ''episode-num'' (gn_programme_element program)
     = (if gn_season program \<noteq> PNone \<and> gn_episode program \<noteq> PNone
        then episode_nums (gn_season program) (gn_episode program) else [])"
  by (simp add: findall_children_def gn_programme_element_def episode_nums_def
      rating_element_def)

lemma episode_num_children_gx:
  "findall_children ''episode-num'' (gx_programme_element program)
     = (if truthy (gx_season program) \<and> truthy (gx_episode program)
        then episode_nums (gx_season program) (gx_episode program) else [])"
  by (simp add: findall_children_def gx_programme_element_def episode_nums_def
      rating_element_def)

text \<open>
  C5, as stated, fails for one of the two builders it names. \<^verbatim>\<open>create_xmltv\<close> of
  gracenote.py tests \<^verbatim>\<open>is not None\<close>, and season 0 is not \<open>None\<close>: the programme of a
  program with season 0 and episode 1 has both \<^verbatim>\<open>episode-num\<close> elements there.
\<close>

theorem gn_season_zero_counterexample:
  "map text_of (findall_children ''episode-num''
      (gn_programme_element
         \<lparr>gn_start = ''20240101092000'', gn_end = ''20240101102000'',
          gn_channel_id = PStr ''5'', gn_title = PStr ''News'', gn_episode_title = PNone,
          gn_description = PNone, gn_season = PInt 0, gn_episode = PInt 1,
          gn_rating = PNone, gn_language = PStr ''en''\<rparr>))
     = [PStr ''0.1.0'', PStr ''S0E1'']"
  by (simp add: episode_num_children_gn episode_nums_def str_int_digits)

text \<open>
  C5, amended. In the document of \<^verbatim>\<open>create_xmltv\<close> of gracenote_to_xmltv.py a program
  whose season or episode is falsy (season 0 with episode 1 is such a program) has no
  \<^verbatim>\<open>episode-num\<close> element. In the document of \<^verbatim>\<open>create_xmltv\<close> of gracenote.py a program with
  season 0 and episode 1 has the two elements, with the texts \<^verbatim>\<open>0.1.0\<close> and \<^verbatim>\<open>S0E1\<close>.
\<close>

theorem season_zero_episode_one:
  "(\<not> (truthy (gx_season p) \<and> truthy (gx_episode p)) \<longrightarrow>
      findall_children ''episode-num'' (gx_programme_element p) = [])
   \<and> (gn_season q = PInt 0 \<and> gn_episode q = PInt 1 \<longrightarrow>
        map text_of (findall_children ''episode-num'' (gn_programme_element q))
          = [PStr ''0.1.0'', PStr ''S0E1''])"
  by (simp add: episode_num_children_gx episode_num_children_gn episode_nums_def str_int_digits)

theorem season_zero_episode_one_witness:
  "\<not> truthy (PInt 0)
   \<and> findall_children ''episode-num''
       (gx_programme_element
          \<lparr>gx_start = ''20240101092000'', gx_stop = ''20240101102000'',
           gx_channel_id = PStr ''5'', gx_title = PStr ''News'', gx_short_desc = PNone,
           gx_rating = PNone, gx_season = PInt 0, gx_episode = PInt 1,
           gx_episode_title = PNone, gx_lang = PStr ''en''\<rparr>) = []
   \<and> map text_of (findall_children ''episode-num''
       (gn_programme_element
          \<lparr>gn_start = ''20240101092000'', gn_end = ''20240101102000'',
           gn_channel_id = PStr ''5'', gn_title = PStr ''News'', gn_episode_title = PNone,
           gn_description = PNone, gn_season = PInt 0, gn_episode = PInt 1,
           gn_rating = PNone, gn_language = PStr ''en''\<rparr>))
       = [PStr ''0.1.0'', PStr ''S0E1'']"
  using season_zero_episode_one [of
      "\<lparr>gx_start = ''20240101092000'', gx_stop = ''20240101102000'',
        gx_channel_id = PStr ''5'', gx_title = PStr ''News'', gx_short_desc = PNone,
        gx_rating = PNone, gx_season = PInt 0, gx_episode = PInt 1,
        gx_episode_title = PNone, gx_lang = PStr ''en''\<rparr>"
      "\<lparr>gn_start = ''20240101092000'', gn_end = ''20240101102000'',
        gn_channel_id = PStr ''5'', gn_title = PStr ''News'', gn_episode_title = PNone,
        gn_description = PNone, gn_season = PInt 0, gn_episode = PInt 1,
        gn_rating = PNone, gn_language = PStr ''en''\<rparr>"]
  by simp

section \<open>The lang attribute\<close>

text \<open>
  C8, as stated, fails for one of the two builders it names. \<^verbatim>\<open>create_xmltv_output\<close> sets
  \<^verbatim>\<open>lang\<close> without a test: with the empty language, the \<^verbatim>\<open>title\<close> and the \<^verbatim>\<open>desc\<close> of a
  programme both carry the attribute \<^verbatim>\<open>lang\<close>, with the empty string as its value.
\<close>

theorem fuel_empty_lang_counterexample:
  "map tag (children (programme_element ''5'' ''''
      \<lparr>start = '''', stop = '''', title = ''News'', desc = ''Daily''\<rparr>))
     = [''title'', ''desc'']
   \<and> map attrib (children (programme_element ''5'' ''''
      \<lparr>start = '''', stop = '''', title = ''News'', desc = ''Daily''\<rparr>))
     = [[(''lang'', '''')], [(''lang'', '''')]]"
  by (simp add: programme_element_def)

text \<open>
  C8, amended. In the document of \<^verbatim>\<open>create_xmltv\<close> of gracenote.py the \<^verbatim>\<open>title\<close>,
  \<^verbatim>\<open>sub-title\<close> and \<^verbatim>\<open>desc\<close> children of a programme carry \<^verbatim>\<open>lang\<close>, with the language of the
  program as its value, when that language is truthy, and no attribute at all otherwise;
  the language of a program is the one of its channel. In the document of
  \<^verbatim>\<open>create_xmltv_output\<close> the children of a programme are a \<^verbatim>\<open>title\<close> and at most a \<^verbatim>\<open>desc\<close>, and
  each carries \<^verbatim>\<open>lang\<close> with the language of the channel, whatever it is.
\<close>

theorem lang_attribute_rule:
  "(\<forall>c \<in> set (children (gn_programme_element p)).
       tag c \<in> {''title'', ''sub-title'', ''desc''} \<longrightarrow>
         attrib c = (if truthy (gn_language p) then [(''lang'', gn_language p)] else []))
   \<and> (program_entry host channel_data raw = Some p' \<longrightarrow>
        gn_language p' = dict_get channel_data ''language'')
   \<and> (\<forall>c \<in> set (children (programme_element cid lang q)).
        tag c \<in> {''title'', ''desc''} \<and> attrib c = [(''lang'', lang)])"
proof -
  have "\<forall>c \<in> set (children (gn_programme_element p)).
       tag c \<in> {''title'', ''sub-title'', ''desc''} \<longrightarrow>
         attrib c = (if truthy (gn_language p) then [(''lang'', gn_language p)] else [])"
    by (auto simp: gn_programme_element_def lang_attrib_def episode_nums_def rating_element_def)
  moreover have "program_entry host channel_data raw = Some p' \<longrightarrow>
        gn_language p' = dict_get channel_data ''language''"
    by (auto simp: program_entry_def entry_of_def Let_def split: option.splits program_value.splits)
  moreover have "\<forall>c \<in> set (children (programme_element cid lang q)).
        tag c \<in> {''title'', ''desc''} \<and> attrib c = [(''lang'', lang)]"
    by (simp add: programme_element_def)
  ultimately show ?thesis by blast
qed


theorem lang_attribute_rule_witness:
  "program_entry utc_host
      [''site_id'' \<mapsto> PStr ''5'', ''name'' \<mapsto> PStr ''Test'', ''language'' \<mapsto> PStr ''en'']
      \<lparr>rp_fields = [''startTime'' \<mapsto> PInt 1704100800, ''endTime'' \<mapsto> PInt 1704104400],
       rp_program = Dict [''title'' \<mapsto> PStr ''News'', ''episodeTitle'' \<mapsto> PStr ''Pilot'',
                          ''shortDesc'' \<mapsto> PStr ''Daily'']\<rparr>
     = Some \<lparr>gn_start = ''20240101092000'', gn_end = ''20240101102000'',
             gn_channel_id = PStr ''5'', gn_title = PStr ''News'',
             gn_episode_title = PStr ''Pilot'', gn_description = PStr ''Daily'',
             gn_season = PNone, gn_episode = PNone, gn_rating = PNone,
             gn_language = PStr ''en''\<rparr>
   \<and> map tag (children (gn_programme_element
        \<lparr>gn_start = ''20240101092000'', gn_end = ''20240101102000'',
         gn_channel_id = PStr ''5'', gn_title = PStr ''News'',
         gn_episode_title = PStr ''Pilot'', gn_description = PStr ''Daily'',
         gn_season = PNone, gn_episode = PNone, gn_rating = PNone,
         gn_language = PStr ''en''\<rparr>))
       = [''title'', ''sub-title'', ''desc'']
   \<and> map attrib (children (gn_programme_element
        \<lparr>gn_start = ''20240101092000'', gn_end = ''20240101102000'',
         gn_channel_id = PStr ''5'', gn_title = PStr ''News'',
         gn_episode_title = PStr ''Pilot'', gn_description = PStr ''Daily'',
         gn_season = PNone, gn_episode = PNone, gn_rating = PNone,
         gn_language = PStr ''en''\<rparr>))
       = [[(''lang'', PStr ''en'')], [(''lang'', PStr ''en'')], [(''lang'', PStr ''en'')]]
   \<and> map attrib (children (programme_element ''5'' ''en''
        \<lparr>start = '''', stop = '''', title = ''News'', desc = ''Daily''\<rparr>))
       = [[(''lang'', ''en'')], [(''lang'', ''en'')]]"
proof -
  let ?ch = "[''site_id'' \<mapsto> PStr ''5'', ''name'' \<mapsto> PStr ''Test'',
              ''language'' \<mapsto> PStr ''en'']"
  let ?raw = "\<lparr>rp_fields = [''startTime'' \<mapsto> PInt 1704100800, ''endTime'' \<mapsto> PInt 1704104400],
       rp_program = Dict [''title'' \<mapsto> PStr ''News'', ''episodeTitle'' \<mapsto> PStr ''Pilot'',
                          ''shortDesc'' \<mapsto> PStr ''Daily'']\<rparr>"
  let ?p = "\<lparr>gn_start = ''20240101092000'', gn_end = ''20240101102000'',
             gn_channel_id = PStr ''5'', gn_title = PStr ''News'',
             gn_episode_title = PStr ''Pilot'', gn_description = PStr ''Daily'',
             gn_season = PNone, gn_episode = PNone, gn_rating = PNone,
             gn_language = PStr ''en''\<rparr>"
  let ?q = "\<lparr>start = '''', stop = '''', title = ''News'', desc = ''Daily''\<rparr>"
  note inst = lang_attribute_rule [of ?p utc_host ?ch ?raw ?p "''5''" "''en''" ?q]
  have entry: "program_entry utc_host ?ch ?raw = Some ?p"
    by (simp add: program_entry_def entry_of_def utc_host_scenario dict_get_def dict_get_or_def py_or_def)
  have kids: "children (gn_programme_element ?p)
                = [Element ''title'' (lang_attrib (PStr ''en'')) (PStr ''News'') [],
                   Element ''sub-title'' (lang_attrib (PStr ''en'')) (PStr ''Pilot'') [],
                   Element ''desc'' (lang_attrib (PStr ''en'')) (PStr ''Daily'') []]"
    by (simp add: gn_programme_element_def)
  have fuel_kids: "children (programme_element ''5'' ''en'' ?q)
                = [Element ''title'' [(''lang'', ''en'')] (Some ''News'') [],
                   Element ''desc'' [(''lang'', ''en'')] (Some ''Daily'') []]"
    by (simp add: programme_element_def)
  from inst have "\<forall>c \<in> set (children (gn_programme_element ?p)).
       tag c \<in> {''title'', ''sub-title'', ''desc''} \<longrightarrow>
         attrib c = (if truthy (gn_language ?p) then [(''lang'', gn_language ?p)] else [])"
    by blast
  then have gn_attribs: "map attrib (children (gn_programme_element ?p))
       = [[(''lang'', PStr ''en'')], [(''lang'', PStr ''en'')], [(''lang'', PStr ''en'')]]"
    unfolding kids by simp
  from inst have "\<forall>c \<in> set (children (programme_element ''5'' ''en'' ?q)).
        tag c \<in> {''title'', ''desc''} \<and> attrib c = [(''lang'', ''en'')]"
    by blast
  then have fuel_attribs: "map attrib (children (programme_element ''5'' ''en'' ?q))
       = [[(''lang'', ''en'')], [(''lang'', ''en'')]]"
    unfolding fuel_kids by simp
  from inst entry have "gn_language ?p = dict_get ?ch ''language''"
    by blast
  have tags: "map tag (children (gn_programme_element ?p)) = [''title'', ''sub-title'', ''desc'']"
    unfolding kids by simp
  from entry tags gn_attribs fuel_attribs show ?thesis
    by (intro conjI)
qed

section \<open>The scenario of the News program\<close>

lemma fold_append_program:
  "fold (append_program host channel_data) ps acc
     = acc @ List.map_filter (program_entry host channel_data) ps"
  by (induction ps arbitrary: acc)
    (simp_all add: append_program_def split: option.splits)

lemma fold_dates:
  "fold (\<lambda>date_str all_programs.
           fold (append_program host channel_data)
             (date_programs fetch channel_data date_str) all_programs) dates acc
     = acc @ concat (map (\<lambda>date_str.
                 List.map_filter (program_entry host channel_data)
                   (date_programs fetch channel_data date_str)) dates)"
  by (induction dates arbitrary: acc) (simp_all add: fold_append_program)

lemma process_channel_concat:
  "process_channel fetch host channel_data dates
     = concat (map (\<lambda>date_str.
                 List.map_filter (program_entry host channel_data)
                   (date_programs fetch channel_data date_str)) dates)"
  by (simp add: process_channel_def fold_dates)

lemma process_channel_member:
  assumes "d \<in> set dates"
    and "raw \<in> set (date_programs fetch channel_data d)"
    and "program_entry host channel_data raw = Some entry"
  shows "entry \<in> set (process_channel fetch host channel_data dates)"
  using assms by (force simp: process_channel_concat List.map_filter_def)

text \<open>
  C6. The channel has the identifier 5 (its \<^verbatim>\<open>xmltv_id\<close>, or else its \<^verbatim>\<open>site_id\<close>) and
  the language \<^verbatim>\<open>en\<close>; the date 2024-01-01 is among the dates asked for, and the service
  answers the request for it with the grid of the scenario; the machine can convert the two
  timestamps. Then the document has the programme element with channel 5, the title News
  and the two \<^verbatim>\<open>episode-num\<close> children \<^verbatim>\<open>2.5.0\<close> and \<^verbatim>\<open>S2E5\<close>, and no further child.
\<close>

theorem news_scenario:
  assumes "py_or (dict_get channel_data ''xmltv_id'') (dict_get channel_data ''site_id'')
             = PStr ''5''"
    and "dict_get channel_data ''language'' = PStr ''en''"
    and "''2024-01-01'' \<in> set dates"
    and "fetch channel_data ''2024-01-01''
           = Some [''2024-01-01'' \<mapsto>
                [\<lparr>rp_fields = [''startTime'' \<mapsto> PInt 1704100800,
                               ''endTime'' \<mapsto> PInt 1704104400],
                  rp_program = Dict [''title'' \<mapsto> PStr ''News'', ''season'' \<mapsto> PInt 2,
                                     ''episode'' \<mapsto> PInt 5]\<rparr>]]"
    and "host 1704100800 = Some s"
    and "host 1704104400 = Some e"
  shows "Element ''programme''
           [(''start'', PStr (s @ '' +0000'')), (''stop'', PStr (e @ '' +0000'')),
            (''channel'', PStr ''5'')]
           PNone
           [Element ''title'' [(''lang'', PStr ''en'')] (PStr ''News'') [],
            Element ''episode-num'' [(''system'', PStr ''xmltv_ns'')] (PStr ''2.5.0'') [],
            Element ''episode-num'' [(''system'', PStr ''onscreen'')] (PStr ''S2E5'') []]
         \<in> set (children (gn_create_xmltv [channel_data]
                   (process_channel fetch host channel_data dates)))"
proof -
  let ?raw = "\<lparr>rp_fields = [''startTime'' \<mapsto> PInt 1704100800,
                               ''endTime'' \<mapsto> PInt 1704104400],
                  rp_program = Dict [''title'' \<mapsto> PStr ''News'', ''season'' \<mapsto> PInt 2,
                                     ''episode'' \<mapsto> PInt 5]\<rparr>"
  let ?entry = "\<lparr>gn_start = s, gn_end = e, gn_channel_id = PStr ''5'',
                  gn_title = PStr ''News'', gn_episode_title = PNone, gn_description = PNone,
                  gn_season = PInt 2, gn_episode = PInt 5, gn_rating = PNone,
                  gn_language = PStr ''en''\<rparr>"
  have "date_programs fetch channel_data ''2024-01-01'' = [?raw]"
    using assms(4) by (simp add: date_programs_def)
  then have raw: "?raw \<in> set (date_programs fetch channel_data ''2024-01-01'')"
    by simp
  have entry: "program_entry host channel_data ?raw = Some ?entry"
    using assms(1,2,5,6) by (simp add: program_entry_def entry_of_def dict_get_def dict_get_or_def)
  have "?entry \<in> set (process_channel fetch host channel_data dates)"
    using assms(3) raw entry by (rule process_channel_member)
  then have "gn_programme_element ?entry
               \<in> set (children (gn_create_xmltv [channel_data]
                         (process_channel fetch host channel_data dates)))"
    by (simp add: children_gn_create_xmltv)
  moreover have "gn_programme_element ?entry
      = Element ''programme''
           [(''start'', PStr (s @ '' +0000'')), (''stop'', PStr (e @ '' +0000'')),
            (''channel'', PStr ''5'')]
           PNone
           [Element ''title'' [(''lang'', PStr ''en'')] (PStr ''News'') [],
            Element ''episode-num'' [(''system'', PStr ''xmltv_ns'')] (PStr ''2.5.0'') [],
            Element ''episode-num'' [(''system'', PStr ''onscreen'')] (PStr ''S2E5'') []]"
    by (simp add: gn_programme_element_def lang_attrib_def episode_nums_def str_int_digits)
  ultimately show ?thesis by simp
qed

theorem news_scenario_witness:
  "Element ''programme''
     [(''start'', PStr ''20240101092000 +0000''), (''stop'', PStr ''20240101102000 +0000''),
      (''channel'', PStr ''5'')]
     PNone
     [Element ''title'' [(''lang'', PStr ''en'')] (PStr ''News'') [],
      Element ''episode-num'' [(''system'', PStr ''xmltv_ns'')] (PStr ''2.5.0'') [],
      Element ''episode-num'' [(''system'', PStr ''onscreen'')] (PStr ''S2E5'') []]
   \<in> set (children (gn_create_xmltv
        [[''site_id'' \<mapsto> PStr ''5'', ''name'' \<mapsto> PStr ''Test'', ''language'' \<mapsto> PStr ''en'']]
        (process_channel
           (\<lambda>channel_data date_str.
              Some [''2024-01-01'' \<mapsto>
                [\<lparr>rp_fields = [''startTime'' \<mapsto> PInt 1704100800,
                               ''endTime'' \<mapsto> PInt 1704104400],
                  rp_program = Dict [''title'' \<mapsto> PStr ''News'', ''season'' \<mapsto> PInt 2,
                                     ''episode'' \<mapsto> PInt 5]\<rparr>]])
           utc_host
           [''site_id'' \<mapsto> PStr ''5'', ''name'' \<mapsto> PStr ''Test'', ''language'' \<mapsto> PStr ''en'']
           [''2024-01-01'', ''2024-01-02'', ''2024-01-03''])))"
  using news_scenario [of
      "[''site_id'' \<mapsto> PStr ''5'', ''name'' \<mapsto> PStr ''Test'', ''language'' \<mapsto> PStr ''en'']"
      "[''2024-01-01'', ''2024-01-02'', ''2024-01-03'']"
      "\<lambda>channel_data date_str.
              Some [''2024-01-01'' \<mapsto>
                [\<lparr>rp_fields = [''startTime'' \<mapsto> PInt 1704100800,
                               ''endTime'' \<mapsto> PInt 1704104400],
                  rp_program = Dict [''title'' \<mapsto> PStr ''News'', ''season'' \<mapsto> PInt 2,
                                     ''episode'' \<mapsto> PInt 5]\<rparr>]]"
      utc_host "''20240101092000''" "''20240101102000''"]
  by (simp add: utc_host_scenario dict_get_def py_or_def)

text \<open>
  With the three dates from 2024-01-01 on, on a machine whose local time is UTC, and a
  service that gives the grid of the scenario for each request, the whole document is the
  channel and this one programme.
\<close>

lemma news_scenario_document:
  "children (gn_create_xmltv
      [[''site_id'' \<mapsto> PStr ''5'', ''name'' \<mapsto> PStr ''Test'', ''language'' \<mapsto> PStr ''en'']]
      (process_channel
         (\<lambda>channel_data date_str.
            Some [''2024-01-01'' \<mapsto>
              [\<lparr>rp_fields = [''startTime'' \<mapsto> PInt 1704100800,
                             ''endTime'' \<mapsto> PInt 1704104400],
                rp_program = Dict [''title'' \<mapsto> PStr ''News'', ''season'' \<mapsto> PInt 2,
                                   ''episode'' \<mapsto> PInt 5]\<rparr>]])
         utc_host
         [''site_id'' \<mapsto> PStr ''5'', ''name'' \<mapsto> PStr ''Test'', ''language'' \<mapsto> PStr ''en'']
         [''2024-01-01'', ''2024-01-02'', ''2024-01-03'']))
     = [Element ''channel'' [(''id'', PStr ''5'')] PNone
          [Element ''display-name'' [] (PStr ''Test'') []],
        Element ''programme''
          [(''start'', PStr ''20240101092000 +0000''), (''stop'', PStr ''20240101102000 +0000''),
           (''channel'', PStr ''5'')]
          PNone
          [Element ''title'' [(''lang'', PStr ''en'')] (PStr ''News'') [],
           Element ''episode-num'' [(''system'', PStr ''xmltv_ns'')] (PStr ''2.5.0'') [],
           Element ''episode-num'' [(''system'', PStr ''onscreen'')] (PStr ''S2E5'') []]]"
  by (simp add: children_gn_create_xmltv process_channel_concat date_programs_def
      program_entry_def entry_of_def utc_host_scenario dict_get_def
      dict_get_or_def py_or_def gn_channel_element_def gn_programme_element_def
      lang_attrib_def episode_nums_def str_int_digits)


end
